theory Spec2Isabelle
  imports Complex_Main "HOL-Library.Word"
begin

unbundle bit_operations_syntax

section \<open>JavaScript numbers\<close>

text \<open>
  A JavaScript number is an IEEE double. The samples of a \<^verbatim>\<open>Float32Array\<close> are
  binary fractions, hence rationals, and the one value the code can produce that is not a
  rational is \<^verbatim>\<open>NaN\<close> (from \<^verbatim>\<open>0 / 0\<close>). A number is therefore a rational or
  \<^verbatim>\<open>NaN\<close>. Arithmetic on the rational part is exact: the rounding of a double
  operation to 53 bits, and of a stored sample to 24 bits, is not part of the model.
  The product \<^verbatim>\<open>data[i] * 32768\<close> of the encoder is exact in a double as well (a
  24-bit fraction scaled by a power of two), so for the encoder the model and the
  program agree on every finite sample.
\<close>

datatype jsnum = Num rat | NaN

fun js_mul :: "jsnum \<Rightarrow> jsnum \<Rightarrow> jsnum" where
  "js_mul (Num a) (Num b) = Num (a * b)"
| "js_mul _ _ = NaN"



text \<open>The integer part of a number, the fraction dropped towards zero (step 3 of
  ECMAScript's ToInt16: \<^verbatim>\<open>sign(x) * floor(abs(x))\<close>).\<close>

definition js_trunc :: "rat \<Rightarrow> int" where
  "js_trunc x = (if x < 0 then - \<lfloor>- x\<rfloor> else \<lfloor>x\<rfloor>)"

text \<open>Storing a number into an \<^verbatim>\<open>Int16Array\<close> applies ToInt16: \<^verbatim>\<open>NaN\<close> becomes 0,
  any other number is truncated and reduced modulo \<open>2^16\<close>.\<close>

fun ToInt16 :: "jsnum \<Rightarrow> 16 word" where
  "ToInt16 NaN = 0"
| "ToInt16 (Num x) = word_of_int (js_trunc x)"

section \<open>Frame Encoder\<close>

text \<open>
  \<^verbatim>\<open>
  function createBlob(data) {
      const int16 = new Int16Array(data.length);
      for (let i = 0; i < data.length; i++) {
          int16[i] = data[i] * 32768;
      }
      return {
          data: encode(new Uint8Array(int16.buffer)),
          mimeType: 'audio/pcm;rate=16000',
      };
  }
  \<close>
  The function is the same in every revision. \<open>createBlob_int16\<close> is the array
  \<^verbatim>\<open>int16\<close> after the loop; the field \<open>data\<close> of the blob holds the bytes of the
  \<^verbatim>\<open>Uint8Array\<close> over its buffer (low byte first, as on every little-endian machine).
  \<^verbatim>\<open>encode\<close> is \<^verbatim>\<open>btoa\<close> of these bytes, a bijective text encoding of the browser,
  which is not unfolded here. Infinite samples are not modelled.
\<close>

definition createBlob_int16 :: "jsnum list \<Rightarrow> 16 word list" where
  "createBlob_int16 d = map (\<lambda>s. ToInt16 (js_mul s (Num 32768))) d"

definition int16_bytes :: "16 word \<Rightarrow> 8 word list" where
  "int16_bytes w = [ucast w, ucast (drop_bit 8 w)]"

record blob =
  data :: "8 word list"
  mimeType :: string

definition createBlob :: "jsnum list \<Rightarrow> blob" where
  "createBlob d = \<lparr> data = concat (map int16_bytes (createBlob_int16 d)),
                    mimeType = ''audio/pcm;rate=16000'' \<rparr>"

text \<open>The receiver's reading of one 16-bit sample: the signed value over \<open>2^15\<close>.\<close>

definition decode_sample :: "16 word \<Rightarrow> rat" where
  "decode_sample w = of_int (sint w) / 32768"

text \<open>The receiver's reading of two bytes as one 16-bit sample, low byte first.\<close>

definition bytes_int16 :: "8 word list \<Rightarrow> 16 word" where
  "bytes_int16 bs = ucast (bs ! 0) OR push_bit 8 (ucast (bs ! 1))"

section \<open>Resampler\<close>








section \<open>Session state\<close>

text \<open>
  Every revision of the program (\<^verbatim>\<open>index.js\<close>, the track-duplication revision, the
  push-to-talk revision and the others) keeps its state in the variables of one closure.
  The record \<open>app\<close> holds the union of the variables the modelled functions read or
  write, the part of the page they touch (status indicator,
  error banner, transcription panel, the disabled state of the start buttons), and the
  environment they act on: the media tracks of the browser, the pending timeouts, the
  clock of the event loop in milliseconds, the messages sent on the data channel and the
  calls made on the other browser and library objects. A function of a revision leaves
  the variables its revision does not have untouched. Other page elements are not modelled.

  Strings are lists of \<open>char\<close>, so a text is taken to hold code units below 256.
\<close>

datatype speaker = You | Participant

text \<open>The two messages of the data channel: \<^verbatim>\<open>{type: 'transcription', text}\<close> and
  \<^verbatim>\<open>{type: 'name', name}\<close>.\<close>

datatype message = Transcription string | Name string

datatype track_kind = Audio | Video

text \<open>A \<^verbatim>\<open>MediaStreamTrack\<close>: \<open>ended\<close> is \<^verbatim>\<open>readyState === 'ended'\<close>. Tracks live
  in a store and are named by their position in it; a \<^verbatim>\<open>MediaStream\<close> is the list of
  the tracks it holds.\<close>

record track =
  kind :: track_kind
  enabled :: bool
  ended :: bool

record audio_context =
  sampleRate :: rat
  closed :: bool

record script_processor =
  connected :: bool

record peer_handle =
  destroyed :: bool

record data_connection =
  dc_open :: bool

datatype promise = Pending | Fulfilled | Rejected

text \<open>Calls on browser and library objects, in the order they are made.\<close>

datatype effect =
    CreateMediaStreamSource "nat list option"
  | CallAnswer "nat list option"
  | ConnectProcessor
  | DisconnectProcessor
  | CloseAudioContext
  | QueueSessionClose
  | CloseDataConnection
  | DestroyPeer

text \<open>A line of the transcription panel, as \<^verbatim>\<open>appendAndTranslate\<close> adds it, with the
  time it was added. The translation that fills the line later is not modelled.\<close>

record line =
  line_speaker :: speaker
  line_text :: string
  line_time :: nat

record app =
  ai :: bool
  isMeetingActive :: bool
  isTalking :: bool
  sessionPromise :: "promise option"
  mediaStream :: "nat list option"
  geminiMediaStream :: "nat list option"
  peerMediaStream :: "nat list option"
  audioContext :: "audio_context option"
  scriptProcessor :: "script_processor option"
  translationDelay :: nat
  peer :: "peer_handle option"
  dataConnection :: "data_connection option"
  meetingId :: "string option"
  remoteName :: string
  localTranscriptionBuffer :: string
  localTranscriptionTimer :: "nat option"
  status :: string
  errorBanner :: "string option"
  loading :: bool
  transcriptionPanel :: "line list"
  tracks :: "track list"
  timers :: "(nat \<times> nat \<times> string) list"
  lastTimerId :: nat
  clock :: nat
  sent :: "message list"
  effects :: "effect list"

text \<open>The state of a freshly loaded page, with the client \<^verbatim>\<open>ai\<close> constructed.\<close>

definition app0 :: app where
  "app0 = \<lparr> ai = True, isMeetingActive = False, isTalking = False, sessionPromise = None,
            mediaStream = None, geminiMediaStream = None, peerMediaStream = None,
            audioContext = None, scriptProcessor = None, translationDelay = 2000,
            peer = None, dataConnection = None, meetingId = None,
            remoteName = ''Participant'', localTranscriptionBuffer = [],
            localTranscriptionTimer = None, status = ''idle'', errorBanner = None,
            loading = False, transcriptionPanel = [], tracks = [], timers = [],
            lastTimerId = 0, clock = 0, sent = [], effects = [] \<rparr>"

subsection \<open>The browser\<close>

text \<open>\<^verbatim>\<open>String.prototype.trim\<close> removes white space and line terminators from both
  ends; below 256 these are the code units 9 to 13, 32 and 160.\<close>

definition js_whitespace :: "char \<Rightarrow> bool" where
  "js_whitespace c = (of_char c \<in> {9, 10, 11, 12, 13, 32, 160 :: nat})"

definition js_trim :: "string \<Rightarrow> string" where
  "js_trim s = rev (dropWhile js_whitespace (rev (dropWhile js_whitespace s)))"

text \<open>\<^verbatim>\<open>setTimeout\<close> returns a positive identifier that was not used before and
  remembers the callback with its due time; the callback of the only timer modelled,
  the one of \<^verbatim>\<open>handleLocalTranscription\<close>, is given by the \<^verbatim>\<open>lineToTranslate\<close> it
  has captured. \<^verbatim>\<open>clearTimeout\<close> forgets the timer of that identifier, and does nothing
  when it has fired already.\<close>

definition setTimeout :: "string \<Rightarrow> nat \<Rightarrow> app \<Rightarrow> nat \<times> app" where
  "setTimeout lineToTranslate delay st =
     (let timerId = lastTimerId st + 1
      in (timerId, st\<lparr> timers := timers st @ [(timerId, clock st + delay, lineToTranslate)],
                       lastTimerId := timerId \<rparr>))"

definition clearTimeout :: "nat \<Rightarrow> app \<Rightarrow> app" where
  "clearTimeout timerId st = st\<lparr> timers := filter (\<lambda>tm. fst tm \<noteq> timerId) (timers st) \<rparr>"

text \<open>\<^verbatim>\<open>track.stop()\<close> ends one track, \<^verbatim>\<open>track.clone()\<close> adds a copy of a track to the
  store and returns its name, \<^verbatim>\<open>stream.getTracks().forEach(track => track.stop())\<close>
  ends the tracks of a stream.\<close>

definition track_stop :: "nat \<Rightarrow> track list \<Rightarrow> track list" where
  "track_stop i ts = (if i < length ts then ts[i := (ts ! i)\<lparr> ended := True \<rparr>] else ts)"

definition track_clone :: "nat \<Rightarrow> track list \<Rightarrow> nat \<times> track list" where
  "track_clone i ts = (length ts, ts @ [ts ! i])"

definition stop_all :: "nat list \<Rightarrow> track list \<Rightarrow> track list" where
  "stop_all stream ts = fold track_stop stream ts"

definition getAudioTracks :: "track list \<Rightarrow> nat list \<Rightarrow> nat list" where
  "getAudioTracks ts stream = filter (\<lambda>i. kind (ts ! i) = Audio) stream"

definition getVideoTracks :: "track list \<Rightarrow> nat list \<Rightarrow> nat list" where
  "getVideoTracks ts stream = filter (\<lambda>i. kind (ts ! i) = Video) stream"

text \<open>The outcome of \<^verbatim>\<open>navigator.mediaDevices.getUserMedia\<close>: a stream of new live
  tracks of the given kinds, or a rejection with the name of the error.\<close>

datatype user_media = Granted "track_kind list" | Denied string

definition new_stream :: "track_kind list \<Rightarrow> app \<Rightarrow> nat list \<times> app" where
  "new_stream kinds st =
     ([length (tracks st) ..< length (tracks st) + length kinds],
      st\<lparr> tracks := tracks st
             @ map (\<lambda>k. \<lparr> kind = k, enabled = True, ended = False \<rparr>) kinds \<rparr>)"

subsection \<open>Functions shared by the revisions\<close>

definition updateStatus :: "string \<Rightarrow> app \<Rightarrow> app" where
  "updateStatus s st = st\<lparr> status := s \<rparr>"

definition showError :: "string \<Rightarrow> app \<Rightarrow> app" where
  "showError message st = updateStatus ''error'' (st\<lparr> errorBanner := Some message \<rparr>)"

definition hideError :: "app \<Rightarrow> app" where
  "hideError st = st\<lparr> errorBanner := None \<rparr>"

definition setLoadingState :: "bool \<Rightarrow> app \<Rightarrow> app" where
  "setLoadingState isLoading st = st\<lparr> loading := isLoading \<rparr>"

definition appendAndTranslate :: "string \<Rightarrow> speaker \<Rightarrow> app \<Rightarrow> app" where
  "appendAndTranslate text speaker st =
     st\<lparr> transcriptionPanel := transcriptionPanel st
           @ [\<lparr> line_speaker = speaker, line_text = text, line_time = clock st \<rparr>] \<rparr>"

text \<open>\<^verbatim>\<open>dataConnection?.open\<close>\<close>

definition dataConnection_open :: "app \<Rightarrow> bool" where
  "dataConnection_open st = (case dataConnection st of None \<Rightarrow> False | Some c \<Rightarrow> dc_open c)"

definition send :: "message \<Rightarrow> app \<Rightarrow> app" where
  "send m st = st\<lparr> sent := sent st @ [m] \<rparr>"

definition call_effect :: "effect \<Rightarrow> app \<Rightarrow> app" where
  "call_effect e st = st\<lparr> effects := effects st @ [e] \<rparr>"

text \<open>
  \<^verbatim>\<open>
  function initializePeer(isJoining) {
      ...
      peer = new Peer(peerIdToRegister, { config: iceServers });
      peer.on('open', ...); peer.on('call', ...); peer.on('connection', ...); peer.on('error', ...);
  }
  \<close>
  Only the new handle is state; the handlers run later, as events.
\<close>

definition initializePeer :: "bool \<Rightarrow> app \<Rightarrow> app" where
  "initializePeer isJoining st = st\<lparr> peer := Some \<lparr> destroyed = False \<rparr> \<rparr>"

subsection \<open>Transcription line buffer, delay model\<close>

text \<open>
  \<^verbatim>\<open>
  function handleLocalTranscription(text) {
      if (!text.trim() && localTranscriptionBuffer.length === 0) return;
      localTranscriptionBuffer += text;

      if (dataConnection?.open) {
          dataConnection.send({ type: 'transcription', text: text });
      }

      if (localTranscriptionTimer) clearTimeout(localTranscriptionTimer);

      const lineToTranslate = localTranscriptionBuffer;

      localTranscriptionTimer = window.setTimeout(() => {
          appendAndTranslate(lineToTranslate, 'You');
          localTranscriptionBuffer = '';
      }, translationDelay);
  }
  \<close>
  The same text in \<^verbatim>\<open>index.js\<close> and in every revision but the push-to-talk one. A
  timer identifier is positive, so the test \<^verbatim>\<open>if (localTranscriptionTimer)\<close> asks
  whether the variable is set.
\<close>

definition handleLocalTranscription :: "string \<Rightarrow> app \<Rightarrow> app" where
  "handleLocalTranscription text st =
     (if js_trim text = [] \<and> length (localTranscriptionBuffer st) = 0 then st
      else
        let st1 = st\<lparr> localTranscriptionBuffer := localTranscriptionBuffer st @ text \<rparr>;
            st2 = (if dataConnection_open st1 then send (Transcription text) st1 else st1);
            st3 = (case localTranscriptionTimer st2 of
                     Some timerId \<Rightarrow> clearTimeout timerId st2
                   | None \<Rightarrow> st2);
            lineToTranslate = localTranscriptionBuffer st3;
            (timerId, st4) = setTimeout lineToTranslate (translationDelay st3) st3
        in st4\<lparr> localTranscriptionTimer := Some timerId \<rparr>)"






subsection \<open>Transcription line buffer, push-to-talk model\<close>

text \<open>
  From the second file of \<^verbatim>\<open>src/unnamed/part_001\<close>:
  \<^verbatim>\<open>
  function startTranscribing() {
      if (!isMeetingActive || isTalking || !scriptProcessor || !audioContext) return;
      isTalking = true;
      talkBtn.classList.add('talking');
      updateStatus('listening', 'Listening...');
      scriptProcessor.connect(audioContext.destination);
  }

  function stopTranscribing() {
      if (!isMeetingActive || !isTalking || !scriptProcessor) return;
      isTalking = false;
      talkBtn.classList.remove('talking');
      updateStatus('ready', 'Hold to Talk');
      scriptProcessor.disconnect();

      if (localTranscriptionBuffer.trim().length > 0) {
          appendAndTranslate(localTranscriptionBuffer, 'You');
          if (dataConnection?.open) {
              dataConnection.send({ type: 'transcription', text: localTranscriptionBuffer });
          }
          localTranscriptionBuffer = '';
      }
  }

  function handleLocalTranscription(text) {
      if (!isTalking) return; // Ignore transcription if not actively talking
      localTranscriptionBuffer += text;
  }
  \<close>
\<close>

definition startTranscribing :: "app \<Rightarrow> app" where
  "startTranscribing st =
     (if \<not> isMeetingActive st \<or> isTalking st \<or> scriptProcessor st = None \<or> audioContext st = None
      then st
      else
        let st1 = updateStatus ''listening'' (st\<lparr> isTalking := True \<rparr>)
        in call_effect ConnectProcessor (st1\<lparr> scriptProcessor := Some \<lparr> connected = True \<rparr> \<rparr>))"

definition stopTranscribing :: "app \<Rightarrow> app" where
  "stopTranscribing st =
     (if \<not> isMeetingActive st \<or> \<not> isTalking st \<or> scriptProcessor st = None then st
      else
        let st1 = updateStatus ''ready'' (st\<lparr> isTalking := False \<rparr>);
            st2 = call_effect DisconnectProcessor
                    (st1\<lparr> scriptProcessor := Some \<lparr> connected = False \<rparr> \<rparr>)
        in if length (js_trim (localTranscriptionBuffer st2)) > 0
           then
             let st3 = appendAndTranslate (localTranscriptionBuffer st2) You st2;
                 st4 = (if dataConnection_open st3
                        then send (Transcription (localTranscriptionBuffer st3)) st3 else st3)
             in st4\<lparr> localTranscriptionBuffer := [] \<rparr>
           else st2)"

definition handleLocalTranscription_ptt :: "string \<Rightarrow> app \<Rightarrow> app" where
  "handleLocalTranscription_ptt text st =
     (if \<not> isTalking st then st
      else st\<lparr> localTranscriptionBuffer := localTranscriptionBuffer st @ text \<rparr>)"

subsection \<open>Session start and teardown, \<^verbatim>\<open>index.js\<close>\<close>

text \<open>
  \<^verbatim>\<open>
  function setupGeminiTranscription() {
      audioContext = new (window.AudioContext || window.webkitAudioContext)({ sampleRate: 16000 });
      const source = audioContext.createMediaStreamSource(mediaStream);
      scriptProcessor = audioContext.createScriptProcessor(4096, 1, 1);
      sessionPromise = ai.live.connect({ ... });
      scriptProcessor.onaudioprocess = (event) => { ... };
      source.connect(scriptProcessor);
      scriptProcessor.connect(audioContext.destination);
  }
  \<close>
\<close>

definition setupGeminiTranscription :: "app \<Rightarrow> app" where
  "setupGeminiTranscription st =
     (let st1 = st\<lparr> audioContext := Some \<lparr> sampleRate = 16000, closed = False \<rparr> \<rparr>;
          st2 = call_effect (CreateMediaStreamSource (mediaStream st1)) st1;
          st3 = st2\<lparr> scriptProcessor := Some \<lparr> connected = False \<rparr> \<rparr>;
          st4 = st3\<lparr> sessionPromise := Some Pending \<rparr>
      in call_effect ConnectProcessor (st4\<lparr> scriptProcessor := Some \<lparr> connected = True \<rparr> \<rparr>))"

text \<open>The handler of the peer's \<^verbatim>\<open>call\<close> event:
  \<^verbatim>\<open>call.answer(mediaStream); setupRemoteStream(call);\<close>, the second of which only
  registers handlers.\<close>

definition peer_on_call :: "app \<Rightarrow> app" where
  "peer_on_call st = call_effect (CallAnswer (mediaStream st)) st"

text \<open>
  \<^verbatim>\<open>
  function resetApplicationState() {
      isMeetingActive = false;
      // Stop media streams
      if (mediaStream) {
          mediaStream.getTracks().forEach(track => track.stop());
          mediaStream = null;
      }
      // Disconnect audio processing
      if (scriptProcessor) {
          scriptProcessor.disconnect();
          scriptProcessor = null;
      }
      if (audioContext && audioContext.state !== 'closed') {
           audioContext.close().catch(e => console.error("Error closing AudioContext:", e));
      }
      audioContext = null;
      // Close Gemini session
      if (sessionPromise) {
          sessionPromise.then(session => session.close()).catch(e => ...);
          sessionPromise = null;
      }
      // Close data connection
      if (dataConnection) {
          dataConnection.close();
          dataConnection = null;
      }
      // Destroy PeerJS connection
      if (peer && !peer.destroyed) {
          peer.destroy();
      }
      peer = null;
      // Reset UI elements
      ... (page elements) ...
      transcriptionPanel.innerHTML = '';
      ...
      // Reset state variables
      meetingId = null;
      localTranscriptionBuffer = '';
      if (localTranscriptionTimer) {
          clearTimeout(localTranscriptionTimer);
          localTranscriptionTimer = null;
      }
      remoteName = 'Participant';
      remoteNameTag.textContent = remoteName;
      // Re-enable controls
      setLoadingState(false);
      updateStatus('idle', 'Idle');
  }

  function endMeeting() {
      console.log("Ending meeting and resetting state.");
      resetApplicationState();
  }
  \<close>
\<close>

text \<open>The blocks of the function, one definition for each comment of the source.\<close>

definition stop_media_streams :: "app \<Rightarrow> app" where
  "stop_media_streams st =
     (case mediaStream st of
        Some stream \<Rightarrow> st\<lparr> tracks := stop_all stream (tracks st), mediaStream := None \<rparr>
      | None \<Rightarrow> st)"

definition disconnect_audio_processing :: "app \<Rightarrow> app" where
  "disconnect_audio_processing st =
     (let st1 = (case scriptProcessor st of
                   Some p \<Rightarrow> (call_effect DisconnectProcessor st)\<lparr> scriptProcessor := None \<rparr>
                 | None \<Rightarrow> st);
          st2 = (case audioContext st1 of
                   Some c \<Rightarrow> if \<not> closed c then call_effect CloseAudioContext st1 else st1
                 | None \<Rightarrow> st1)
      in st2\<lparr> audioContext := None \<rparr>)"

definition close_gemini_session :: "app \<Rightarrow> app" where
  "close_gemini_session st =
     (case sessionPromise st of
        Some p \<Rightarrow> (call_effect QueueSessionClose st)\<lparr> sessionPromise := None \<rparr>
      | None \<Rightarrow> st)"

definition close_data_connection :: "app \<Rightarrow> app" where
  "close_data_connection st =
     (case dataConnection st of
        Some c \<Rightarrow> (call_effect CloseDataConnection st)\<lparr> dataConnection := None \<rparr>
      | None \<Rightarrow> st)"

definition destroy_peerjs_connection :: "app \<Rightarrow> app" where
  "destroy_peerjs_connection st =
     (let st1 = (case peer st of
                   Some p \<Rightarrow> if \<not> destroyed p then call_effect DestroyPeer st else st
                 | None \<Rightarrow> st)
      in st1\<lparr> peer := None \<rparr>)"

definition reset_ui_elements :: "app \<Rightarrow> app" where
  "reset_ui_elements st = st\<lparr> transcriptionPanel := [] \<rparr>"

definition reset_state_variables :: "app \<Rightarrow> app" where
  "reset_state_variables st =
     (let st1 = st\<lparr> meetingId := None, localTranscriptionBuffer := [] \<rparr>;
          st2 = (case localTranscriptionTimer st1 of
                   Some timerId \<Rightarrow> (clearTimeout timerId st1)\<lparr> localTranscriptionTimer := None \<rparr>
                 | None \<Rightarrow> st1)
      in st2\<lparr> remoteName := ''Participant'' \<rparr>)"

definition resetApplicationState :: "app \<Rightarrow> app" where
  "resetApplicationState st =
     (let st1 = st\<lparr> isMeetingActive := False \<rparr>;
          st2 = stop_media_streams st1;
          st3 = disconnect_audio_processing st2;
          st4 = close_gemini_session st3;
          st5 = close_data_connection st4;
          st6 = destroy_peerjs_connection st5;
          st7 = reset_ui_elements st6;
          st8 = reset_state_variables st7
      in updateStatus ''idle'' (setLoadingState False st8))"

definition endMeeting :: "app \<Rightarrow> app" where
  "endMeeting st = resetApplicationState st"

text \<open>
  \<^verbatim>\<open>
  async function startMeeting(isJoining) {
      if (!ai) {
          showError("Application is not initialized. Please provide an API Key.");
          return;
      }
      setLoadingState(true, 'Starting...');
      hideError();
      transcriptionPanel.innerHTML = '';
      setupControls.style.display = 'none';
      try {
          mediaStream = await navigator.mediaDevices.getUserMedia({ audio: true, video: true });
          ...
          initializePeer(isJoining);
          setupGeminiTranscription();
          isMeetingActive = true;
          callInProgressControls.style.display = 'flex';
          setLoadingState(false);
      } catch (error) {
          console.error(error);
          const errorMessage = error instanceof Error && error.name === 'NotAllowedError'
              ? 'Camera and microphone access was denied.'
              : 'Failed to start. Check permissions and try again.';
          showError(errorMessage);
          endMeeting();
      }
  }
  \<close>
  The outcome of \<^verbatim>\<open>getUserMedia\<close> is a parameter; no other event is taken to run while
  the function waits for it.
\<close>

definition startMeeting :: "user_media \<Rightarrow> bool \<Rightarrow> app \<Rightarrow> app" where
  "startMeeting media isJoining st =
     (if \<not> ai st then showError ''Application is not initialized. Please provide an API Key.'' st
      else
        let st1 = (hideError (setLoadingState True st))\<lparr> transcriptionPanel := [] \<rparr>
        in case media of
             Denied name \<Rightarrow>
               endMeeting
                 (showError (if name = ''NotAllowedError''
                             then ''Camera and microphone access was denied.''
                             else ''Failed to start. Check permissions and try again.'') st1)
           | Granted kinds \<Rightarrow>
               let (stream, st2) = new_stream kinds st1;
                   st3 = st2\<lparr> mediaStream := Some stream \<rparr>;
                   st4 = initializePeer isJoining st3;
                   st5 = setupGeminiTranscription st4;
                   st6 = st5\<lparr> isMeetingActive := True \<rparr>
               in setLoadingState False st6)"

subsection \<open>Session start and teardown, track-duplication revision\<close>

text \<open>
  From \<^verbatim>\<open>src/unnamed/part_000\<close>. The functions of this revision carry the suffix
  \<open>_clone\<close>.
  \<^verbatim>\<open>
  async function requestMediaPermissions() {
      ...
      hideError();
      try {
          mediaStream = await navigator.mediaDevices.getUserMedia({ audio: true, video: true });
          ...
      } catch (error) {
          const errorMessage = error.name === 'NotAllowedError'
              ? 'Permission denied. ...'
              : 'Could not access camera/microphone. ...';
          showError(errorMessage);
          ...
      }
  }
  \<close>
\<close>

definition requestMediaPermissions_clone :: "user_media \<Rightarrow> app \<Rightarrow> app" where
  "requestMediaPermissions_clone media st =
     (let st1 = hideError st
      in case media of
           Granted kinds \<Rightarrow>
             let (stream, st2) = new_stream kinds st1 in st2\<lparr> mediaStream := Some stream \<rparr>
         | Denied name \<Rightarrow>
             showError (if name = ''NotAllowedError''
                        then ''Permission denied. Please allow camera and microphone access in your browser settings and refresh the page.''
                        else ''Could not access camera/microphone. Please ensure they are not in use by another application and refresh the page.'') st1)"

text \<open>
  \<^verbatim>\<open>
  function resetUI() {
      ... (page elements) ...
      transcriptionPanel.innerHTML = '';
      hideError();
      ...
      updateStatus('idle', 'Idle');
      ...
      setLoadingState(false);
  }

  function endMeeting() {
      if (!isMeetingActive) return;
      console.log("Ending meeting...");
      // Stop media tracks from original and cloned streams
      if (mediaStream) {
          mediaStream.getTracks().forEach(track => track.stop());
          mediaStream = null;
      }
      if (geminiMediaStream) {
          geminiMediaStream.getTracks().forEach(track => track.stop());
          geminiMediaStream = null;
      }
      peerMediaStream = null; // This was just a container for original tracks
      // Close Gemini session
      if (sessionPromise) {
          sessionPromise.then(session => { session.close(); }).catch(e => ...);
          sessionPromise = null;
      }
      // Stop audio processing
      if (scriptProcessor) {
          scriptProcessor.disconnect();
          scriptProcessor = null;
      }
      if (audioContext && audioContext.state !== 'closed') {
          audioContext.close().catch(e => ...);
          audioContext = null;
      }
      // Disconnect PeerJS
      if (dataConnection) {
          dataConnection.close();
          dataConnection = null;
      }
      if (peer) {
          peer.destroy();
          peer = null;
      }
      isMeetingActive = false;
      resetUI();
  }
  \<close>
\<close>

definition resetUI_clone :: "app \<Rightarrow> app" where
  "resetUI_clone st =
     setLoadingState False
       (updateStatus ''idle'' (hideError (st\<lparr> transcriptionPanel := [] \<rparr>)))"

text \<open>The blocks of \<^verbatim>\<open>endMeeting\<close>, one definition for each comment of the source. The
  first \<^verbatim>\<open>if\<close> of the first block, the block that closes the session and the first
  \<^verbatim>\<open>if\<close> of the last block have the text they have in \<^verbatim>\<open>index.js\<close>.\<close>

definition stop_media_tracks_clone :: "app \<Rightarrow> app" where
  "stop_media_tracks_clone st =
     (let st1 = stop_media_streams st;
          st2 = (case geminiMediaStream st1 of
                   Some stream \<Rightarrow>
                     st1\<lparr> tracks := stop_all stream (tracks st1), geminiMediaStream := None \<rparr>
                 | None \<Rightarrow> st1)
      in st2\<lparr> peerMediaStream := None \<rparr>)"

definition stop_audio_processing_clone :: "app \<Rightarrow> app" where
  "stop_audio_processing_clone st =
     (let st1 = (case scriptProcessor st of
                   Some p \<Rightarrow> (call_effect DisconnectProcessor st)\<lparr> scriptProcessor := None \<rparr>
                 | None \<Rightarrow> st)
      in case audioContext st1 of
           Some c \<Rightarrow>
             if \<not> closed c then (call_effect CloseAudioContext st1)\<lparr> audioContext := None \<rparr>
             else st1
         | None \<Rightarrow> st1)"

definition disconnect_peerjs_clone :: "app \<Rightarrow> app" where
  "disconnect_peerjs_clone st =
     (let st1 = close_data_connection st
      in case peer st1 of
           Some p \<Rightarrow> (call_effect DestroyPeer st1)\<lparr> peer := None \<rparr>
         | None \<Rightarrow> st1)"

definition endMeeting_clone :: "app \<Rightarrow> app" where
  "endMeeting_clone st =
     (if \<not> isMeetingActive st then st
      else
        let st1 = stop_media_tracks_clone st;
            st2 = close_gemini_session st1;
            st3 = stop_audio_processing_clone st2;
            st4 = disconnect_peerjs_clone st3
        in resetUI_clone (st4\<lparr> isMeetingActive := False \<rparr>))"

text \<open>
  \<^verbatim>\<open>
  async function setupGeminiTranscription() {
      const genAI = getAiInstance();
      audioContext = new (window.AudioContext || window.webkitAudioContext)();
      if (!audioContext) { throw new Error("Could not create AudioContext."); }
      const source = audioContext.createMediaStreamSource(geminiMediaStream);
      scriptProcessor = audioContext.createScriptProcessor(4096, 1, 1);
      sessionPromise = genAI.live.connect({ ... });
      // Wait for the session to be established before processing audio
      await sessionPromise;
      scriptProcessor.onaudioprocess = (event) => { ... };
      source.connect(scriptProcessor);
      scriptProcessor.connect(audioContext.destination);
  }
  \<close>
  The sample rate of the device and the outcome of the connection are parameters. The
  result is \<open>Inl\<close> of the state when the function throws (the awaited promise was
  rejected), \<open>Inr\<close> of the state when it returns.
\<close>

definition setupGeminiTranscription_clone :: "rat \<Rightarrow> bool \<Rightarrow> app \<Rightarrow> app + app" where
  "setupGeminiTranscription_clone deviceRate sessionOpens st =
     (let st1 = st\<lparr> ai := True \<rparr>;
          st2 = st1\<lparr> audioContext := Some \<lparr> sampleRate = deviceRate, closed = False \<rparr> \<rparr>;
          st3 = call_effect (CreateMediaStreamSource (geminiMediaStream st2)) st2;
          st4 = st3\<lparr> scriptProcessor := Some \<lparr> connected = False \<rparr> \<rparr>
      in if \<not> sessionOpens then Inl (st4\<lparr> sessionPromise := Some Rejected \<rparr>)
         else
           let st5 = st4\<lparr> sessionPromise := Some Fulfilled \<rparr>
           in Inr (call_effect ConnectProcessor
                     (st5\<lparr> scriptProcessor := Some \<lparr> connected = True \<rparr> \<rparr>)))"

text \<open>
  \<^verbatim>\<open>
  async function startMeeting(isJoining) {
      setLoadingState(true, 'Starting...');
      hideError();
      transcriptionPanel.innerHTML = '';
      setupControls.style.display = 'none';
      if (!mediaStream) {
          showError("Media stream not found. Please enable your camera and microphone first.");
          resetUI();
          return;
      }
      try {
          const videoTracks = mediaStream.getVideoTracks();
          const audioTracks = mediaStream.getAudioTracks();
          if (audioTracks.length === 0 || videoTracks.length === 0) {
              showError("Could not find required audio/video tracks in the stream.");
              endMeeting();
              return;
          }
          // --- The "Photocopier" Logic ---
          // Clone the audio track to prevent resource conflicts between PeerJS and Web Audio API.
          const originalAudioTrack = audioTracks[0];
          const clonedAudioTrack = originalAudioTrack.clone();
          // Create dedicated streams for each service.
          peerMediaStream = new MediaStream([...videoTracks, originalAudioTrack]);
          geminiMediaStream = new MediaStream([clonedAudioTrack]);
          initializePeer(isJoining);
          await setupGeminiTranscription(); // Await this to catch setup errors
          isMeetingActive = true;
          callInProgressControls.style.display = 'flex';
          setLoadingState(false);
      } catch (error) {
          console.error("Error during meeting start:", error);
          const errorMessage = error instanceof Error && error.name === 'NotAllowedError'
              ? 'Camera and microphone access was denied.'
              : 'Failed to start. Check permissions and try again.';
          showError(errorMessage);
          endMeeting();
      }
  }
  \<close>
  The error of a rejected connection is not a \<^verbatim>\<open>NotAllowedError\<close>.
\<close>

definition startMeeting_clone :: "bool \<Rightarrow> rat \<Rightarrow> bool \<Rightarrow> app \<Rightarrow> app" where
  "startMeeting_clone isJoining deviceRate sessionOpens st =
     (let st1 = (hideError (setLoadingState True st))\<lparr> transcriptionPanel := [] \<rparr>
      in case mediaStream st1 of
           None \<Rightarrow>
             resetUI_clone
               (showError ''Media stream not found. Please enable your camera and microphone first.'' st1)
         | Some stream \<Rightarrow>
             let videoTracks = getVideoTracks (tracks st1) stream;
                 audioTracks = getAudioTracks (tracks st1) stream
             in if length audioTracks = 0 \<or> length videoTracks = 0
                then endMeeting_clone
                       (showError ''Could not find required audio/video tracks in the stream.'' st1)
                else
                  let originalAudioTrack = audioTracks ! 0;
                      (clonedAudioTrack, ts) = track_clone originalAudioTrack (tracks st1);
                      st2 = st1\<lparr> tracks := ts \<rparr>;
                      st3 = st2\<lparr> peerMediaStream := Some (videoTracks @ [originalAudioTrack]) \<rparr>;
                      st4 = st3\<lparr> geminiMediaStream := Some [clonedAudioTrack] \<rparr>;
                      st5 = initializePeer isJoining st4
                  in (case setupGeminiTranscription_clone deviceRate sessionOpens st5 of
                        Inr st6 \<Rightarrow> setLoadingState False (st6\<lparr> isMeetingActive := True \<rparr>)
                      | Inl st6 \<Rightarrow>
                          endMeeting_clone
                            (showError ''Failed to start. Check permissions and try again.'' st6)))"

text \<open>The handler of the peer's \<^verbatim>\<open>call\<close> event in this revision:
  \<^verbatim>\<open>call.answer(peerMediaStream); // Use the dedicated PeerJS stream\<close>.\<close>

definition peer_on_call_clone :: "app \<Rightarrow> app" where
  "peer_on_call_clone st = call_effect (CallAnswer (peerMediaStream st)) st"

subsection \<open>The two feeds\<close>

text \<open>The Recognition feed is what the code hands to
  \<^verbatim>\<open>createMediaStreamSource\<close>, the Transport feed what it hands to the peer library
  when it answers a call: the tracks of the streams in the recorded calls.\<close>

fun source_of :: "effect \<Rightarrow> nat list" where
  "source_of (CreateMediaStreamSource (Some stream)) = stream"
| "source_of _ = []"

fun answered_of :: "effect \<Rightarrow> nat list" where
  "answered_of (CallAnswer (Some stream)) = stream"
| "answered_of _ = []"

definition recognition_feed :: "app \<Rightarrow> nat list" where
  "recognition_feed st = concat (map source_of (effects st))"

definition transport_feed :: "app \<Rightarrow> nat list" where
  "transport_feed st = concat (map answered_of (effects st))"

subsection \<open>The pending timer\<close>


subsection \<open>The events of \<^verbatim>\<open>index.js\<close>\<close>

text \<open>
  \<^verbatim>\<open>
  peer.on('connection', (conn) => {
      dataConnection = conn;
      setupDataConnection();
  });
  \<close>
  \<^verbatim>\<open>setupDataConnection\<close> only registers handlers.
\<close>

definition peer_on_connection :: "data_connection \<Rightarrow> app \<Rightarrow> app" where
  "peer_on_connection conn st = st\<lparr> dataConnection := Some conn \<rparr>"




subsection \<open>Sessions used as examples\<close>

text \<open>A page whose data channel is open.\<close>

definition open_channel :: app where
  "open_channel = peer_on_connection \<lparr> dc_open = True \<rparr> app0"

text \<open>A push-to-talk session in progress: the meeting is active, the audio graph and the
  recognition session exist, the data channel is open, the gate is closed.\<close>

definition ptt_ready :: app where
  "ptt_ready = app0\<lparr> isMeetingActive := True,
                     scriptProcessor := Some \<lparr> connected = False \<rparr>,
                     audioContext := Some \<lparr> sampleRate = 16000, closed = False \<rparr>,
                     sessionPromise := Some Fulfilled,
                     dataConnection := Some \<lparr> dc_open = True \<rparr>,
                     status := ''ready'' \<rparr>"

text \<open>The track-duplication revision after the user has granted camera and microphone,
  and after a start of the meeting in which the recognition session fails to open.\<close>

definition clone_ready :: app where
  "clone_ready = requestMediaPermissions_clone (Granted [Audio, Video]) app0"

definition failed_start :: app where
  "failed_start = startMeeting_clone False 48000 False clone_ready"

text \<open>\<^verbatim>\<open>index.js\<close> after a start of the meeting and an answered call.\<close>

definition index_session :: app where
  "index_session = peer_on_call (startMeeting (Granted [Audio, Video]) False app0)"

section \<open>Frame Encoder: what a sample becomes\<close>

lemma js_trunc_bounds: "\<bar>of_int (js_trunc x) - x\<bar> < 1"
  unfolding js_trunc_def by (auto simp: abs_if; linarith)

lemma js_trunc_range:
  assumes "- 1 \<le> s" "s < 1"
  shows "- 32768 \<le> js_trunc (s * 32768) \<and> js_trunc (s * 32768) < 32768"
  using assms unfolding js_trunc_def by (auto; linarith)

lemma js_trunc_round: "\<bar>js_trunc x - round x\<bar> \<le> 1"
  unfolding js_trunc_def round_def by (auto simp: abs_if; linarith)

lemma sint_ToInt16:
  "sint (ToInt16 (Num x)) = (js_trunc x + 32768) mod 65536 - 32768"
  by (simp add: sint_sbintrunc' signed_take_bit_eq_take_bit_shift take_bit_eq_mod)

lemma sint_ToInt16_in_range:
  assumes "- 32768 \<le> js_trunc x" "js_trunc x < 32768"
  shows "sint (ToInt16 (Num x)) = js_trunc x"
  unfolding sint_ToInt16 using assms by simp

text \<open>The bytes of the blob are the samples of the \<^verbatim>\<open>Int16Array\<close>, two bytes each.\<close>

lemma bytes_int16_bytes: "bytes_int16 (int16_bytes w) = w"
  unfolding bytes_int16_def int16_bytes_def
  by (rule bit_word_eqI) (auto simp: bit_simps)

lemma concat_int16_bytes_nth:
  "i < length ws \<Longrightarrow>
   take 2 (drop (2 * i) (concat (map int16_bytes ws))) = int16_bytes (ws ! i)"
proof (induction ws arbitrary: i)
  case Nil
  then show ?case by simp
next
  case (Cons w ws)
  show ?case
  proof (cases i)
    case 0
    then show ?thesis by (simp add: int16_bytes_def)
  next
    case (Suc j)
    then show ?thesis using Cons by (simp add: int16_bytes_def)
  qed
qed

lemma createBlob_data:
  "length (data (createBlob d)) = 2 * length d"
  "i < length d \<Longrightarrow>
     bytes_int16 (take 2 (drop (2 * i) (data (createBlob d)))) = createBlob_int16 d ! i"
  "mimeType (createBlob d) = ''audio/pcm;rate=16000''"
proof -
  have l: "length (concat (map int16_bytes ws)) = 2 * length ws" for ws
    by (induction ws) (simp_all add: int16_bytes_def)
  have "length (createBlob_int16 d) = length d" by (simp add: createBlob_int16_def)
  then show "length (data (createBlob d)) = 2 * length d"
    by (simp add: createBlob_def l)
  show "bytes_int16 (take 2 (drop (2 * i) (data (createBlob d)))) = createBlob_int16 d ! i"
    if "i < length d"
  proof -
    have "i < length (createBlob_int16 d)" using that by (simp add: createBlob_int16_def)
    then show ?thesis
      by (simp add: createBlob_def concat_int16_bytes_nth bytes_int16_bytes)
  qed
  show "mimeType (createBlob d) = ''audio/pcm;rate=16000''"
    by (simp add: createBlob_def)
qed

text \<open>
  Claim C1, as the code has it. A finite sample \<open>s\<close> becomes the integer part of
  \<open>s * 32768\<close>, the fraction dropped towards zero, reduced modulo \<open>2^16\<close> into the signed
  16-bit range: nothing is clamped. For \<open>-1 \<le> s < 1\<close> no reduction happens, the decoded
  value is less than one quantization step away from \<open>s\<close>, and at most one step away from
  \<open>round (s * 32768) / 32768\<close>.
\<close>

theorem createBlob_truncates:
  assumes "i < length d" and "d ! i = Num s"
  shows "length (createBlob_int16 d) = length d
    \<and> sint (createBlob_int16 d ! i) = (js_trunc (s * 32768) + 32768) mod 65536 - 32768
    \<and> (- 1 \<le> s \<and> s < 1 \<longrightarrow>
          sint (createBlob_int16 d ! i) = js_trunc (s * 32768)
        \<and> \<bar>decode_sample (createBlob_int16 d ! i) - s\<bar> < 1 / 32768
        \<and> \<bar>decode_sample (createBlob_int16 d ! i) - of_int (round (s * 32768)) / 32768\<bar>
             \<le> 1 / 32768)"
proof -
  have el: "createBlob_int16 d ! i = ToInt16 (Num (s * 32768))"
    using assms by (simp add: createBlob_int16_def)
  have wrap: "sint (createBlob_int16 d ! i) = (js_trunc (s * 32768) + 32768) mod 65536 - 32768"
    by (simp only: el sint_ToInt16)
  have inr: "sint (createBlob_int16 d ! i) = js_trunc (s * 32768)
        \<and> \<bar>decode_sample (createBlob_int16 d ! i) - s\<bar> < 1 / 32768
        \<and> \<bar>decode_sample (createBlob_int16 d ! i) - of_int (round (s * 32768)) / 32768\<bar>
             \<le> 1 / 32768" if r: "- 1 \<le> s" "s < 1"
  proof -
    let ?t = "js_trunc (s * 32768)"
    have v: "sint (createBlob_int16 d ! i) = ?t"
      unfolding el using js_trunc_range [OF r] by (intro sint_ToInt16_in_range) simp_all
    have "\<bar>of_int ?t - s * 32768\<bar> < 1" by (rule js_trunc_bounds)
    then have a: "\<bar>of_int ?t / 32768 - s\<bar> < 1 / 32768"
      by (simp add: abs_if field_simps split: if_splits)
    have "\<bar>?t - round (s * 32768)\<bar> \<le> 1" by (rule js_trunc_round)
    then have "\<bar>(of_int ?t :: rat) - of_int (round (s * 32768))\<bar> \<le> 1"
      by (metis of_int_1 of_int_abs of_int_diff of_int_le_iff)
    then have b: "\<bar>(of_int ?t :: rat) / 32768 - of_int (round (s * 32768)) / 32768\<bar> \<le> 1 / 32768"
      by (simp add: abs_if field_simps split: if_splits)
    show ?thesis using v a b by (simp add: decode_sample_def)
  qed
  show ?thesis using wrap inr by (simp add: createBlob_int16_def)
qed

text \<open>The theorem at the sample \<open>-3/131072\<close>, that is \<open>-0.75 / 32768\<close>: it is encoded
  as 0.\<close>

theorem createBlob_truncates_witness:
  "0 < length [Num (- 3 / 131072)] \<and> [Num (- 3 / 131072)] ! 0 = Num (- 3 / 131072)
   \<and> - 1 \<le> (- 3 / 131072 :: rat) \<and> (- 3 / 131072 :: rat) < 1
   \<and> sint (createBlob_int16 [Num (- 3 / 131072)] ! 0) = 0
   \<and> js_trunc (- 3 / 131072 * 32768) = 0"
proof -
  have t: "js_trunc (- 3 / 131072 * 32768) = 0" by code_simp
  show ?thesis
    using createBlob_truncates [of 0 "[Num (- 3 / 131072)]" "- 3 / 131072"] t by simp
qed

text \<open>
  Claim C1 as stated fails. The sample \<open>3/131072\<close> lies in \<open>[-1, 1]\<close> and
  \<open>round (s * 32768) = round 0.75 = 1\<close>, but the encoder stores 0. The sample 1 lies in
  \<open>[-1, 1]\<close> too and \<open>round (s * 32768) = 32768\<close>, but the encoder stores \<open>-32768\<close>.
\<close>

theorem createBlob_round_counterexample:
  "- 1 \<le> (3 / 131072 :: rat) \<and> (3 / 131072 :: rat) \<le> 1
   \<and> sint (createBlob_int16 [Num (3 / 131072)] ! 0) = 0
   \<and> round (3 / 131072 * 32768 :: rat) = 1
   \<and> sint (createBlob_int16 [Num 1] ! 0) = - 32768
   \<and> round (1 * 32768 :: rat) = 32768"
  by code_simp

section \<open>Resampler: the loops\<close>




subsection \<open>Rounding and the window bounds\<close>










subsection \<open>The resampler on positive rates\<close>













section \<open>Transcription line buffer: the handler and its timer\<close>



lemma handleLocalTranscription_accepted:
  assumes "\<not> (js_trim text = [] \<and> localTranscriptionBuffer st = [])"
  shows "localTranscriptionBuffer (handleLocalTranscription text st) = localTranscriptionBuffer st @ text"
    and "sent (handleLocalTranscription text st)
           = (if dataConnection_open st then sent st @ [Transcription text] else sent st)"
    and "localTranscriptionTimer (handleLocalTranscription text st) = Some (lastTimerId st + 1)"
    and "lastTimerId (handleLocalTranscription text st) = lastTimerId st + 1"
    and "transcriptionPanel (handleLocalTranscription text st) = transcriptionPanel st"
    and "clock (handleLocalTranscription text st) = clock st"
    and "translationDelay (handleLocalTranscription text st) = translationDelay st"
    and "timers (handleLocalTranscription text st)
           = (case localTranscriptionTimer st of
                Some timerId \<Rightarrow> filter (\<lambda>tm. fst tm \<noteq> timerId) (timers st)
              | None \<Rightarrow> timers st)
             @ [(lastTimerId st + 1, clock st + translationDelay st, localTranscriptionBuffer st @ text)]"
  using assms
  by (auto simp: handleLocalTranscription_def Let_def setTimeout_def clearTimeout_def send_def
      dataConnection_open_def split: option.splits)













section \<open>Teardown in \<^verbatim>\<open>index.js\<close>\<close>

text \<open>Each block of \<^verbatim>\<open>resetApplicationState\<close> is one update of the state.\<close>

lemma stop_media_streams_nf:
  "stop_media_streams st =
     st\<lparr> tracks := (case mediaStream st of Some stream \<Rightarrow> stop_all stream (tracks st)
                                          | None \<Rightarrow> tracks st),
         mediaStream := None \<rparr>"
  by (cases st) (simp add: stop_media_streams_def split: option.splits)

lemma disconnect_audio_processing_nf:
  "disconnect_audio_processing st =
     st\<lparr> effects := effects st
           @ (case scriptProcessor st of Some p \<Rightarrow> [DisconnectProcessor] | None \<Rightarrow> [])
           @ (case audioContext st of
                Some c \<Rightarrow> if \<not> closed c then [CloseAudioContext] else []
              | None \<Rightarrow> []),
         scriptProcessor := None, audioContext := None \<rparr>"
  by (cases st)
    (simp add: disconnect_audio_processing_def call_effect_def Let_def split: option.splits)

lemma close_gemini_session_nf:
  "close_gemini_session st =
     st\<lparr> effects := effects st
           @ (case sessionPromise st of Some p \<Rightarrow> [QueueSessionClose] | None \<Rightarrow> []),
         sessionPromise := None \<rparr>"
  by (cases st) (simp add: close_gemini_session_def call_effect_def split: option.splits)

lemma close_data_connection_nf:
  "close_data_connection st =
     st\<lparr> effects := effects st
           @ (case dataConnection st of Some c \<Rightarrow> [CloseDataConnection] | None \<Rightarrow> []),
         dataConnection := None \<rparr>"
  by (cases st) (simp add: close_data_connection_def call_effect_def split: option.splits)

lemma destroy_peerjs_connection_nf:
  "destroy_peerjs_connection st =
     st\<lparr> effects := effects st
           @ (case peer st of Some p \<Rightarrow> if \<not> destroyed p then [DestroyPeer] else []
                            | None \<Rightarrow> []),
         peer := None \<rparr>"
  by (cases st)
    (simp add: destroy_peerjs_connection_def call_effect_def Let_def split: option.splits)

lemma reset_state_variables_nf:
  "reset_state_variables st =
     st\<lparr> meetingId := None, localTranscriptionBuffer := [],
         timers := (case localTranscriptionTimer st of
                      Some timerId \<Rightarrow> filter (\<lambda>tm. fst tm \<noteq> timerId) (timers st)
                    | None \<Rightarrow> timers st),
         localTranscriptionTimer := None, remoteName := ''Participant'' \<rparr>"
  by (cases st)
    (simp add: reset_state_variables_def clearTimeout_def Let_def split: option.splits)

lemmas reset_nf = stop_media_streams_nf disconnect_audio_processing_nf close_gemini_session_nf
  close_data_connection_nf destroy_peerjs_connection_nf reset_state_variables_nf
  reset_ui_elements_def updateStatus_def setLoadingState_def

lemma resetApplicationState_fields:
  "isMeetingActive (resetApplicationState st) = False"
  "mediaStream (resetApplicationState st) = None"
  "scriptProcessor (resetApplicationState st) = None"
  "audioContext (resetApplicationState st) = None"
  "sessionPromise (resetApplicationState st) = None"
  "dataConnection (resetApplicationState st) = None"
  "peer (resetApplicationState st) = None"
  "localTranscriptionTimer (resetApplicationState st) = None"
  "localTranscriptionBuffer (resetApplicationState st) = []"
  "transcriptionPanel (resetApplicationState st) = []"
  "meetingId (resetApplicationState st) = None"
  "remoteName (resetApplicationState st) = ''Participant''"
  "loading (resetApplicationState st) = False"
  "status (resetApplicationState st) = ''idle''"
  by (simp_all add: resetApplicationState_def Let_def reset_nf)


lemma resetApplicationState_fixed:
  assumes "\<not> isMeetingActive st" "mediaStream st = None" "scriptProcessor st = None"
    "audioContext st = None" "sessionPromise st = None" "dataConnection st = None"
    "peer st = None" "localTranscriptionTimer st = None" "localTranscriptionBuffer st = []"
    "transcriptionPanel st = []" "meetingId st = None" "remoteName st = ''Participant''"
    "\<not> loading st" "status st = ''idle''"
  shows "resetApplicationState st = st"
  using assms by (cases st) (simp add: resetApplicationState_def Let_def reset_nf)

lemma resetApplicationState_idempotent:
  "resetApplicationState (resetApplicationState st) = resetApplicationState st
   \<and> status (resetApplicationState st) = ''idle''
   \<and> status (endMeeting (endMeeting st)) = ''idle''"
  by (simp add: endMeeting_def resetApplicationState_fixed resetApplicationState_fields)


section \<open>The reachable states of \<^verbatim>\<open>index.js\<close>\<close>




section \<open>Transcription line buffer: the two models\<close>

subsection \<open>The delay model\<close>










subsection \<open>The push-to-talk model\<close>

lemma handleLocalTranscription_ptt_closed:
  "\<not> isTalking st \<Longrightarrow> handleLocalTranscription_ptt text st = st"
  by (simp add: handleLocalTranscription_ptt_def)

lemma handleLocalTranscription_ptt_sent:
  "sent (handleLocalTranscription_ptt text st) = sent st"
  by (simp add: handleLocalTranscription_ptt_def)

lemma stopTranscribing_nonblank:
  assumes "isMeetingActive st" "isTalking st" "scriptProcessor st \<noteq> None"
    and "js_trim (localTranscriptionBuffer st) \<noteq> []"
  shows "transcriptionPanel (stopTranscribing st)
           = transcriptionPanel st
             @ [\<lparr> line_speaker = You, line_text = localTranscriptionBuffer st,
                  line_time = clock st \<rparr>]"
    and "localTranscriptionBuffer (stopTranscribing st) = []"
    and "sent (stopTranscribing st)
           = (if dataConnection_open st
              then sent st @ [Transcription (localTranscriptionBuffer st)] else sent st)"
    and "\<not> isTalking (stopTranscribing st)"
  using assms
  by (auto simp: stopTranscribing_def Let_def updateStatus_def call_effect_def
      appendAndTranslate_def send_def dataConnection_open_def)

lemma stopTranscribing_blank:
  assumes "isMeetingActive st" "isTalking st" "scriptProcessor st \<noteq> None"
    and "js_trim (localTranscriptionBuffer st) = []"
  shows "transcriptionPanel (stopTranscribing st) = transcriptionPanel st"
    and "localTranscriptionBuffer (stopTranscribing st) = localTranscriptionBuffer st"
    and "sent (stopTranscribing st) = sent st"
    and "\<not> isTalking (stopTranscribing st)"
  using assms
  by (auto simp: stopTranscribing_def Let_def updateStatus_def call_effect_def)

lemma ptt_hello:
  "isMeetingActive (handleLocalTranscription_ptt ''hello'' (startTranscribing ptt_ready))"
  "isTalking (handleLocalTranscription_ptt ''hello'' (startTranscribing ptt_ready))"
  "scriptProcessor (handleLocalTranscription_ptt ''hello'' (startTranscribing ptt_ready)) \<noteq> None"
  "localTranscriptionBuffer (handleLocalTranscription_ptt ''hello'' (startTranscribing ptt_ready))
     = ''hello''"
  "dataConnection_open (handleLocalTranscription_ptt ''hello'' (startTranscribing ptt_ready))"
  "sent (handleLocalTranscription_ptt ''hello'' (startTranscribing ptt_ready)) = []"
  "transcriptionPanel (handleLocalTranscription_ptt ''hello'' (startTranscribing ptt_ready)) = []"
  "clock (handleLocalTranscription_ptt ''hello'' (startTranscribing ptt_ready)) = 0"
  by (simp_all add: handleLocalTranscription_ptt_def startTranscribing_def ptt_ready_def app0_def
      Let_def updateStatus_def call_effect_def dataConnection_open_def)

lemma js_trim_hello: "js_trim ''hello'' \<noteq> []"
  by (simp add: js_trim_def js_whitespace_def)

text \<open>
  Claim C4, as the code has it. In the delay model every fragment that is not dropped is
  sent to the peer at once when the data channel is open, and the panel is not touched
  by its arrival: the commit comes later, from the timer. In the push-to-talk model the
  arrival of a fragment sends nothing; when the gate closes on a non-blank accumulator,
  the whole accumulated text is sent as one message (when the channel is open), at the
  moment it is committed.
\<close>

theorem fragment_relay:
  "(\<not> (js_trim text = [] \<and> localTranscriptionBuffer st = []) \<longrightarrow>
        sent (handleLocalTranscription text st)
          = (if dataConnection_open st then sent st @ [Transcription text] else sent st)
      \<and> transcriptionPanel (handleLocalTranscription text st) = transcriptionPanel st)
   \<and> sent (handleLocalTranscription_ptt text st) = sent st
   \<and> (isMeetingActive st \<and> isTalking st \<and> scriptProcessor st \<noteq> None
        \<and> js_trim (localTranscriptionBuffer st) \<noteq> [] \<longrightarrow>
        sent (stopTranscribing st)
          = (if dataConnection_open st
             then sent st @ [Transcription (localTranscriptionBuffer st)] else sent st)
      \<and> transcriptionPanel (stopTranscribing st)
          = transcriptionPanel st
            @ [\<lparr> line_speaker = You, line_text = localTranscriptionBuffer st,
                 line_time = clock st \<rparr>])"
  using handleLocalTranscription_accepted(2,5) [of "text" st]
    handleLocalTranscription_ptt_sent [of "text" st]
    stopTranscribing_nonblank(1,3) [of st]
  by blast

text \<open>The theorem at the fragment \<open>''a''\<close> in the delay model with an open channel, and at
  a gate that closes on the accumulator \<open>''hello''\<close>.\<close>

theorem fragment_relay_witness:
  "\<not> (js_trim ''a'' = [] \<and> localTranscriptionBuffer open_channel = [])
   \<and> sent (handleLocalTranscription ''a'' open_channel) = [Transcription ''a'']
   \<and> transcriptionPanel (handleLocalTranscription ''a'' open_channel) = []
   \<and> isTalking (handleLocalTranscription_ptt ''hello'' (startTranscribing ptt_ready))
   \<and> sent (handleLocalTranscription_ptt ''hello'' (startTranscribing ptt_ready)) = []
   \<and> sent (stopTranscribing (handleLocalTranscription_ptt ''hello'' (startTranscribing ptt_ready)))
       = [Transcription ''hello'']"
proof -
  let ?p = "handleLocalTranscription_ptt ''hello'' (startTranscribing ptt_ready)"
  have a: "\<not> (js_trim ''a'' = [] \<and> localTranscriptionBuffer open_channel = [])"
    by (simp add: js_trim_def js_whitespace_def)
  have o: "dataConnection_open open_channel" "sent open_channel = []"
    "transcriptionPanel open_channel = []"
    by (simp_all add: open_channel_def peer_on_connection_def app0_def dataConnection_open_def)
  have d: "sent (handleLocalTranscription ''a'' open_channel) = [Transcription ''a'']
      \<and> transcriptionPanel (handleLocalTranscription ''a'' open_channel) = []"
    using fragment_relay [of "''a''" open_channel] a o by simp
  have s: "sent (stopTranscribing ?p) = [Transcription ''hello'']"
    using fragment_relay [of "''x''" ?p] js_trim_hello by (simp add: ptt_hello)
  show ?thesis using a d s by (simp add: ptt_hello)
qed

text \<open>
  Claim C4 as stated fails in the push-to-talk model: with the gate and the data channel
  open, the fragment \<open>''hello''\<close> is accepted into the accumulator and nothing is sent.
\<close>

theorem fragment_relay_counterexample:
  "isTalking (startTranscribing ptt_ready)
   \<and> dataConnection_open (startTranscribing ptt_ready)
   \<and> localTranscriptionBuffer (handleLocalTranscription_ptt ''hello'' (startTranscribing ptt_ready))
       = ''hello''
   \<and> sent (handleLocalTranscription_ptt ''hello'' (startTranscribing ptt_ready)) = []"
  by (simp add: handleLocalTranscription_ptt_def startTranscribing_def ptt_ready_def app0_def
      Let_def updateStatus_def call_effect_def dataConnection_open_def)

text \<open>
  Claim C6, as the code has it. In the push-to-talk model a fragment that arrives while
  the gate is closed changes nothing, so it is in no line committed later. When the gate
  of an active meeting closes, an accumulator that is not blank is committed at once as
  one line of the local speaker and is emptied; a blank accumulator commits no line.
\<close>

theorem push_to_talk_gate:
  "(\<not> isTalking st \<longrightarrow> handleLocalTranscription_ptt text st = st)
   \<and> (isMeetingActive st \<and> isTalking st \<and> scriptProcessor st \<noteq> None \<longrightarrow>
         \<not> isTalking (stopTranscribing st)
       \<and> (js_trim (localTranscriptionBuffer st) \<noteq> [] \<longrightarrow>
            transcriptionPanel (stopTranscribing st)
              = transcriptionPanel st
                @ [\<lparr> line_speaker = You, line_text = localTranscriptionBuffer st,
                     line_time = clock st \<rparr>]
          \<and> localTranscriptionBuffer (stopTranscribing st) = [])
       \<and> (js_trim (localTranscriptionBuffer st) = [] \<longrightarrow>
            transcriptionPanel (stopTranscribing st) = transcriptionPanel st))"
  using handleLocalTranscription_ptt_closed [of st "text"]
    stopTranscribing_nonblank(1,2,4) [of st] stopTranscribing_blank(1,4) [of st]
  by blast

text \<open>The theorem at a fragment that meets the closed gate, and at a gate that closes on
  the accumulator \<open>''hello''\<close>.\<close>

theorem push_to_talk_gate_witness:
  "\<not> isTalking ptt_ready
   \<and> handleLocalTranscription_ptt ''lost'' ptt_ready = ptt_ready
   \<and> isMeetingActive (handleLocalTranscription_ptt ''hello'' (startTranscribing ptt_ready))
   \<and> isTalking (handleLocalTranscription_ptt ''hello'' (startTranscribing ptt_ready))
   \<and> scriptProcessor (handleLocalTranscription_ptt ''hello'' (startTranscribing ptt_ready)) \<noteq> None
   \<and> localTranscriptionBuffer (handleLocalTranscription_ptt ''hello'' (startTranscribing ptt_ready))
       = ''hello''
   \<and> transcriptionPanel
        (stopTranscribing (handleLocalTranscription_ptt ''hello'' (startTranscribing ptt_ready)))
       = [\<lparr> line_speaker = You, line_text = ''hello'', line_time = 0 \<rparr>]
   \<and> localTranscriptionBuffer
        (stopTranscribing (handleLocalTranscription_ptt ''hello'' (startTranscribing ptt_ready)))
       = []"
proof -
  let ?p = "handleLocalTranscription_ptt ''hello'' (startTranscribing ptt_ready)"
  have c: "\<not> isTalking ptt_ready" by (simp add: ptt_ready_def app0_def)
  have l: "handleLocalTranscription_ptt ''lost'' ptt_ready = ptt_ready"
    using push_to_talk_gate [of ptt_ready "''lost''"] c by blast
  have s: "transcriptionPanel (stopTranscribing ?p)
             = [\<lparr> line_speaker = You, line_text = ''hello'', line_time = 0 \<rparr>]
         \<and> localTranscriptionBuffer (stopTranscribing ?p) = []"
    using push_to_talk_gate [of ?p "''x''"] js_trim_hello by (simp add: ptt_hello)
  show ?thesis using c l s by (simp add: ptt_hello)
qed

text \<open>
  Claim C6 as stated fails: not whatever has accumulated is committed. When the gate
  closes on an accumulator of one space, no line is committed, and the accumulator is
  not emptied.
\<close>

theorem push_to_talk_blank_counterexample:
  "isMeetingActive (handleLocalTranscription_ptt '' '' (startTranscribing ptt_ready))
   \<and> isTalking (handleLocalTranscription_ptt '' '' (startTranscribing ptt_ready))
   \<and> localTranscriptionBuffer (handleLocalTranscription_ptt '' '' (startTranscribing ptt_ready))
       = '' ''
   \<and> transcriptionPanel
        (stopTranscribing (handleLocalTranscription_ptt '' '' (startTranscribing ptt_ready))) = []
   \<and> localTranscriptionBuffer
        (stopTranscribing (handleLocalTranscription_ptt '' '' (startTranscribing ptt_ready)))
       = '' ''"
  by (simp add: stopTranscribing_def handleLocalTranscription_ptt_def startTranscribing_def
      ptt_ready_def app0_def Let_def updateStatus_def call_effect_def dataConnection_open_def
      js_trim_def js_whitespace_def)

section \<open>Teardown in the track-duplication revision\<close>

lemma stop_media_tracks_clone_nf:
  "stop_media_tracks_clone st =
     st\<lparr> tracks := (case geminiMediaStream st of
                       Some stream \<Rightarrow>
                         stop_all stream
                           (case mediaStream st of Some stream \<Rightarrow> stop_all stream (tracks st)
                                                 | None \<Rightarrow> tracks st)
                     | None \<Rightarrow>
                         (case mediaStream st of Some stream \<Rightarrow> stop_all stream (tracks st)
                                               | None \<Rightarrow> tracks st)),
         mediaStream := None, geminiMediaStream := None, peerMediaStream := None \<rparr>"
  by (cases st)
    (simp add: stop_media_tracks_clone_def stop_media_streams_def Let_def split: option.splits)

lemma stop_audio_processing_clone_nf:
  "stop_audio_processing_clone st =
     st\<lparr> effects := effects st
           @ (case scriptProcessor st of Some p \<Rightarrow> [DisconnectProcessor] | None \<Rightarrow> [])
           @ (case audioContext st of
                Some c \<Rightarrow> if \<not> closed c then [CloseAudioContext] else []
              | None \<Rightarrow> []),
         scriptProcessor := None,
         audioContext := (case audioContext st of
                            Some c \<Rightarrow> if \<not> closed c then None else Some c
                          | None \<Rightarrow> None) \<rparr>"
  by (cases st)
    (simp add: stop_audio_processing_clone_def call_effect_def Let_def split: option.splits)

lemma disconnect_peerjs_clone_nf:
  "disconnect_peerjs_clone st =
     st\<lparr> effects := effects st
           @ (case dataConnection st of Some c \<Rightarrow> [CloseDataConnection] | None \<Rightarrow> [])
           @ (case peer st of Some p \<Rightarrow> [DestroyPeer] | None \<Rightarrow> []),
         dataConnection := None, peer := None \<rparr>"
  by (cases st)
    (simp add: disconnect_peerjs_clone_def close_data_connection_def call_effect_def Let_def
      split: option.splits)

lemmas endMeeting_clone_nf = stop_media_tracks_clone_nf close_gemini_session_nf
  stop_audio_processing_clone_nf disconnect_peerjs_clone_nf resetUI_clone_def hideError_def
  updateStatus_def setLoadingState_def

lemma endMeeting_clone_inactive:
  "\<not> isMeetingActive st \<Longrightarrow> endMeeting_clone st = st"
  by (simp add: endMeeting_clone_def)

lemma endMeeting_clone_active:
  assumes "isMeetingActive st"
  shows "status (endMeeting_clone st) = ''idle''"
    and "\<not> isMeetingActive (endMeeting_clone st)"
    and "mediaStream (endMeeting_clone st) = None"
    and "geminiMediaStream (endMeeting_clone st) = None"
    and "sessionPromise (endMeeting_clone st) = None"
    and "scriptProcessor (endMeeting_clone st) = None"
    and "dataConnection (endMeeting_clone st) = None"
    and "peer (endMeeting_clone st) = None"
    and "endMeeting_clone (endMeeting_clone st) = endMeeting_clone st"
proof -
  show "status (endMeeting_clone st) = ''idle''"
    and n: "\<not> isMeetingActive (endMeeting_clone st)"
    and "mediaStream (endMeeting_clone st) = None"
    and "geminiMediaStream (endMeeting_clone st) = None"
    and "sessionPromise (endMeeting_clone st) = None"
    and "scriptProcessor (endMeeting_clone st) = None"
    and "dataConnection (endMeeting_clone st) = None"
    and "peer (endMeeting_clone st) = None"
    using assms by (simp_all add: endMeeting_clone_def Let_def endMeeting_clone_nf)
  show "endMeeting_clone (endMeeting_clone st) = endMeeting_clone st"
    using n by (rule endMeeting_clone_inactive)
qed

lemmas start_defs = startMeeting_clone_def clone_ready_def requestMediaPermissions_clone_def app0_def
  new_stream_def hideError_def showError_def updateStatus_def setLoadingState_def
  getAudioTracks_def getVideoTracks_def track_clone_def initializePeer_def
  setupGeminiTranscription_clone_def call_effect_def endMeeting_clone_def Let_def


text \<open>
  Claim C3 against the track-duplication revision. A start of the meeting in which the
  recognition session fails to open ends in the \<^verbatim>\<open>catch\<close> block, which shows the error
  and calls \<^verbatim>\<open>endMeeting\<close>. \<^verbatim>\<open>isMeetingActive\<close> is still false then, so
  \<^verbatim>\<open>endMeeting\<close> returns at its first line: it changes nothing, however often it is
  called. The status stays \<open>error\<close>, not \<open>idle\<close>; the stream, its tracks, the peer and the
  audio context are kept, and the start buttons stay disabled.
\<close>

theorem endMeeting_clone_failed_start:
  "status failed_start = ''error''
   \<and> \<not> isMeetingActive failed_start
   \<and> endMeeting_clone failed_start = failed_start
   \<and> status (endMeeting_clone (endMeeting_clone failed_start)) = ''error''
   \<and> mediaStream failed_start = Some [0, 1]
   \<and> map ended (tracks failed_start) = [False, False, False]
   \<and> peer failed_start = Some \<lparr> destroyed = False \<rparr>
   \<and> audioContext failed_start = Some \<lparr> sampleRate = 48000, closed = False \<rparr>
   \<and> loading failed_start"
  by (simp add: failed_start_def start_defs upt_rec)

text \<open>From a state in which the meeting is active, the teardown of this revision does
  leave the status \<open>idle\<close> and the resources released, and a second teardown changes
  nothing (lemma \<open>endMeeting_clone_active\<close>); \<^verbatim>\<open>index.js\<close> has no guard, and there
  this holds from every state (lemma \<open>resetApplicationState_idempotent\<close>).\<close>

section \<open>The two feeds\<close>

lemma startMeeting_clone_success:
  assumes ms: "mediaStream st = Some stream"
    and a: "getAudioTracks (tracks st) stream \<noteq> []"
    and v: "getVideoTracks (tracks st) stream \<noteq> []"
  shows "effects (peer_on_call_clone (startMeeting_clone isJoining rate True st))
           = effects st
             @ [CreateMediaStreamSource (Some [length (tracks st)]), ConnectProcessor,
                CallAnswer (Some (getVideoTracks (tracks st) stream
                                  @ [getAudioTracks (tracks st) stream ! 0]))]"
    and "tracks (peer_on_call_clone (startMeeting_clone isJoining rate True st))
           = tracks st @ [tracks st ! (getAudioTracks (tracks st) stream ! 0)]"
    and "geminiMediaStream (peer_on_call_clone (startMeeting_clone isJoining rate True st))
           = Some [length (tracks st)]"
    and "peerMediaStream (peer_on_call_clone (startMeeting_clone isJoining rate True st))
           = Some (getVideoTracks (tracks st) stream @ [getAudioTracks (tracks st) stream ! 0])"
  using assms
  by (simp_all add: peer_on_call_clone_def startMeeting_clone_def hideError_def
      setLoadingState_def track_clone_def initializePeer_def
      setupGeminiTranscription_clone_def call_effect_def Let_def)

lemma filter_in_range:
  assumes "list_all (\<lambda>i. i < n) stream" and "i \<in> set (filter P stream)"
  shows "i < n"
  using assms by (auto simp: list_all_iff)

text \<open>
  Claim C2, as the code has it. In the track-duplication revision, a start of the meeting
  from a stream with an audio and a video track hands to the recognition graph one track,
  a new one that is a copy of the first audio track of the capture, and hands to the
  transport the video tracks and the original audio track. The new track is none of
  the transport's, and whatever is done to it (stopping it, or any other change of its
  state) leaves every track of the transport as it was.
\<close>

theorem startMeeting_clone_isolation:
  assumes "mediaStream st = Some stream"
    and "list_all (\<lambda>i. i < length (tracks st)) stream"
    and "getAudioTracks (tracks st) stream \<noteq> []"
    and "getVideoTracks (tracks st) stream \<noteq> []"
  shows "recognition_feed (peer_on_call_clone (startMeeting_clone isJoining rate True st))
           = recognition_feed st @ [length (tracks st)]
       \<and> transport_feed (peer_on_call_clone (startMeeting_clone isJoining rate True st))
           = transport_feed st @ getVideoTracks (tracks st) stream
             @ [getAudioTracks (tracks st) stream ! 0]
       \<and> length (tracks st)
           \<notin> set (getVideoTracks (tracks st) stream @ [getAudioTracks (tracks st) stream ! 0])
       \<and> tracks (peer_on_call_clone (startMeeting_clone isJoining rate True st))
           = tracks st @ [tracks st ! (getAudioTracks (tracks st) stream ! 0)]
       \<and> (\<forall>i \<in> set (getVideoTracks (tracks st) stream
                      @ [getAudioTracks (tracks st) stream ! 0]).
             (\<forall>x. (tracks (peer_on_call_clone (startMeeting_clone isJoining rate True st)))
                      [length (tracks st) := x] ! i
                   = tracks (peer_on_call_clone (startMeeting_clone isJoining rate True st)) ! i)
           \<and> track_stop (length (tracks st))
                (tracks (peer_on_call_clone (startMeeting_clone isJoining rate True st))) ! i
               = tracks (peer_on_call_clone (startMeeting_clone isJoining rate True st)) ! i)"
proof -
  let ?st' = "peer_on_call_clone (startMeeting_clone isJoining rate True st)"
  let ?v = "getVideoTracks (tracks st) stream"
  let ?o = "getAudioTracks (tracks st) stream ! 0"
  note s = startMeeting_clone_success [OF assms(1,3,4), of isJoining rate]
  have o_in: "?o \<in> set (getAudioTracks (tracks st) stream)"
    using assms(3) by simp
  have range: "i < length (tracks st)" if "i \<in> set (?v @ [?o])" for i
    using that o_in filter_in_range [OF assms(2)]
    by (auto simp: getVideoTracks_def getAudioTracks_def)
  have r: "recognition_feed ?st' = recognition_feed st @ [length (tracks st)]"
    by (simp add: recognition_feed_def s(1))
  have t: "transport_feed ?st' = transport_feed st @ ?v @ [?o]"
    by (simp add: transport_feed_def s(1))
  have fresh: "length (tracks st) \<notin> set (?v @ [?o])"
    using range by blast
  have upd: "(tracks ?st')[length (tracks st) := x] ! i = tracks ?st' ! i"
    if "i \<in> set (?v @ [?o])" for i x
    using range [OF that] by (simp add: s(2) nth_append)
  have stop: "track_stop (length (tracks st)) (tracks ?st') ! i = tracks ?st' ! i"
    if "i \<in> set (?v @ [?o])" for i
    using range [OF that] by (simp add: s(2) track_stop_def nth_append)
  show ?thesis using r t fresh s(2) upd stop by blast
qed

lemma clone_ready_facts:
  "mediaStream clone_ready = Some [0, 1]"
  "tracks clone_ready = [\<lparr> kind = Audio, enabled = True, ended = False \<rparr>,
                         \<lparr> kind = Video, enabled = True, ended = False \<rparr>]"
  "effects clone_ready = []"
  by (simp_all add: clone_ready_def requestMediaPermissions_clone_def new_stream_def
      hideError_def app0_def upt_rec)

text \<open>The theorem at a capture of one audio and one video track: the recognition graph
  gets track 2, the transport tracks 1 and 0, and stopping track 2 leaves both alone.\<close>

theorem startMeeting_clone_isolation_witness:
  "mediaStream clone_ready = Some [0, 1]
   \<and> list_all (\<lambda>i. i < length (tracks clone_ready)) [0, 1]
   \<and> getAudioTracks (tracks clone_ready) [0, 1] = [0]
   \<and> getVideoTracks (tracks clone_ready) [0, 1] = [1]
   \<and> recognition_feed (peer_on_call_clone (startMeeting_clone False 48000 True clone_ready)) = [2]
   \<and> transport_feed (peer_on_call_clone (startMeeting_clone False 48000 True clone_ready)) = [1, 0]
   \<and> track_stop 2 (tracks (peer_on_call_clone (startMeeting_clone False 48000 True clone_ready))) ! 0
       = tracks (peer_on_call_clone (startMeeting_clone False 48000 True clone_ready)) ! 0
   \<and> track_stop 2 (tracks (peer_on_call_clone (startMeeting_clone False 48000 True clone_ready))) ! 1
       = tracks (peer_on_call_clone (startMeeting_clone False 48000 True clone_ready)) ! 1"
proof -
  have l: "list_all (\<lambda>i. i < length (tracks clone_ready)) [0, 1]"
    by (simp add: clone_ready_facts)
  have a: "getAudioTracks (tracks clone_ready) [0, 1] = [0]"
    and v: "getVideoTracks (tracks clone_ready) [0, 1] = [1]"
    by (simp_all add: clone_ready_facts getAudioTracks_def getVideoTracks_def)
  have a': "getAudioTracks (tracks clone_ready) [0, 1] \<noteq> []"
    and v': "getVideoTracks (tracks clone_ready) [0, 1] \<noteq> []"
    using a v by simp_all
  have f: "recognition_feed clone_ready = []" "transport_feed clone_ready = []"
    by (simp_all add: recognition_feed_def transport_feed_def clone_ready_facts)
  have n: "length (tracks clone_ready) = 2" by (simp add: clone_ready_facts)
  note th = startMeeting_clone_isolation [OF clone_ready_facts(1) l a' v', of False 48000,
      unfolded a v f n]
  let ?S = "peer_on_call_clone (startMeeting_clone False 48000 True clone_ready)"
  have r: "recognition_feed ?S = [2]" and t: "transport_feed ?S = [1, 0]"
    using th by simp_all
  have "\<forall>i \<in> set ([1] @ [[0] ! 0]). track_stop 2 (tracks ?S) ! i = tracks ?S ! i"
    using th by blast
  then have s: "track_stop 2 (tracks ?S) ! 0 = tracks ?S ! 0"
    "track_stop 2 (tracks ?S) ! 1 = tracks ?S ! 1"
    by simp_all
  show ?thesis
    by (intro conjI clone_ready_facts(1) l a v r t s)
qed

text \<open>
  Claim C2 as stated fails in \<^verbatim>\<open>index.js\<close>, which duplicates nothing: the stream of the
  capture goes both to \<^verbatim>\<open>createMediaStreamSource\<close> and to \<^verbatim>\<open>call.answer\<close>. There are
  two tracks in all, the audio track 0 is in both feeds, and stopping it as the track of
  the Recognition feed ends the track of the Transport feed.
\<close>

theorem shared_track_counterexample:
  "recognition_feed index_session = [0, 1]
   \<and> transport_feed index_session = [0, 1]
   \<and> kind (tracks index_session ! 0) = Audio
   \<and> length (tracks index_session) = 2
   \<and> \<not> ended (tracks index_session ! 0)
   \<and> ended (track_stop 0 (tracks index_session) ! 0)"
  by (simp add: index_session_def peer_on_call_def startMeeting_def new_stream_def
      hideError_def setLoadingState_def initializePeer_def setupGeminiTranscription_def
      call_effect_def app0_def Let_def recognition_feed_def transport_feed_def track_stop_def
      upt_rec)

end
